theory Spec2Isabelle
  imports Complex_Main "HOL-Library.Sublist"
begin

section \<open>Python values and errors\<close>

text \<open>
  Exceptions that the modelled functions can raise: a missing dictionary key, a list
  index out of range, a failure of the language-model stream while it is iterated, and the
  two refusals of the vector store: a batch that names an identifier twice
  (\<open>DuplicateIDError\<close>) and a batch longer than the store's client accepts (a \<open>ValueError\<close>).
\<close>

datatype py_error = KeyError | IndexError | ModelUnavailable | DuplicateIDError | ValueError

text \<open>
  Decimal rendering of Python integers, as an f-string does it (\<open>f"{n}"\<close> is \<open>str(n)\<close>).
\<close>

definition digit_char :: "nat \<Rightarrow> char" where
  "digit_char d = ''0123456789'' ! d"

fun str_nat :: "nat \<Rightarrow> string" where
  "str_nat n = (if n < 10 then [digit_char n] else str_nat (n div 10) @ [digit_char (n mod 10)])"

declare str_nat.simps [simp del]

definition str_int :: "int \<Rightarrow> string" where
  "str_int i = (if i < 0 then CHR ''-'' # str_nat (nat (- i)) else str_nat (nat i))"

section \<open>Ingestion: populate_database.py\<close>

text \<open>
  A langchain \<open>Document\<close> is a text with a metadata dictionary. The keys the program reads
  or writes are \<open>source\<close> (a path string, set by the PDF loader), \<open>page\<close> (an integer, when
  the loader paginates), \<open>start_index\<close> (an integer, set by the splitter, which is built with
  \<open>add_start_index=True\<close>) and \<open>id\<close> (written by \<open>calculate_chunk_ids\<close>). A key that is
  absent from the dictionary is \<open>None\<close> here.
\<close>

record metadata =
  source :: "string option"
  page :: "int option"
  start_index :: "int option"
  chunk_id :: "string option"

record document =
  page_content :: string
  metadata :: metadata

text \<open>
  \<open>source = chunk.metadata.get("source", "unknown")\<close> and the \<open>if/elif/else\<close> that picks the
  position identifier, rendered as the f-string renders it.
\<close>

definition source_of :: "document \<Rightarrow> string" where
  "source_of chunk = (case source (metadata chunk) of Some s \<Rightarrow> s | None \<Rightarrow> ''unknown'')"

definition identifier_of :: "document \<Rightarrow> string" where
  "identifier_of chunk =
     (case page (metadata chunk) of
        Some p \<Rightarrow> str_int p
      | None \<Rightarrow>
          (case start_index (metadata chunk) of
             Some s \<Rightarrow> str_int s
           | None \<Rightarrow> ''unknown''))"

definition current_identifier_of :: "document \<Rightarrow> string" where
  "current_identifier_of chunk = source_of chunk @ '':'' @ identifier_of chunk"

text \<open>
  The loop of \<open>calculate_chunk_ids\<close>, with its two loop variables \<open>last_identifier\<close> and
  \<open>current_idx\<close> as arguments. The source mutates each chunk in place; the model returns the
  updated chunks, in the same order.
\<close>

fun assign_ids :: "string option \<Rightarrow> nat \<Rightarrow> document list \<Rightarrow> document list" where
  "assign_ids last_identifier current_idx [] = []"
| "assign_ids last_identifier current_idx (chunk # chunks) =
     (let current_identifier = current_identifier_of chunk;
          idx = (if Some current_identifier = last_identifier then current_idx + 1 else 0);
          cid = current_identifier @ '':'' @ str_nat idx
      in chunk\<lparr>metadata := (metadata chunk)\<lparr>chunk_id := Some cid\<rparr>\<rparr>
           # assign_ids (Some current_identifier) idx chunks)"

definition calculate_chunk_ids :: "document list \<Rightarrow> document list" where
  "calculate_chunk_ids chunks = assign_ids None 0 chunks"

text \<open>
  The vector store is the Chroma collection behind \<open>self.db\<close>: entries keyed by identifier.
  \<open>db.get(include=[])["ids"]\<close> lists the keys. \<open>add_documents\<close> with explicit \<open>ids\<close> hands the
  whole batch to the collection in one upsert request. The collection checks the request before
  it stores anything: a batch in which an identifier occurs twice is refused with
  \<open>DuplicateIDError\<close>, a batch with more entries than the client's maximum batch size is refused
  with a \<open>ValueError\<close>, and in both cases the collection stays as it was. An accepted batch
  is stored entry by entry, each document under its identifier, replacing an entry that
  already has it. The maximum batch size is a property of the installed client and a
  parameter here.
\<close>

type_synonym store = "(string \<times> document) list"

definition get_ids :: "store \<Rightarrow> string list" where
  "get_ids db = map fst db"

fun upsert :: "string \<Rightarrow> document \<Rightarrow> store \<Rightarrow> store" where
  "upsert k d [] = [(k, d)]"
| "upsert k d ((k', d') # db) = (if k = k' then (k, d) # db else (k', d') # upsert k d db)"

fun upsert_all :: "store \<Rightarrow> document list \<Rightarrow> string list \<Rightarrow> store" where
  "upsert_all db (d # ds) (k # ks) = upsert_all (upsert k d db) ds ks"
| "upsert_all db _ _ = db"

definition add_documents ::
  "nat \<Rightarrow> store \<Rightarrow> document list \<Rightarrow> string list \<Rightarrow> py_error + store" where
  "add_documents max_batch_size db docs ids =
     (if \<not> distinct ids then Inl DuplicateIDError
      else if length ids > max_batch_size then Inl ValueError
      else Inr (upsert_all db docs ids))"

text \<open>\<open>c.metadata["id"]\<close> raises \<open>KeyError\<close> when the key is absent.\<close>

definition metadata_id :: "document \<Rightarrow> py_error + string" where
  "metadata_id c = (case chunk_id (metadata c) of None \<Rightarrow> Inl KeyError | Some i \<Rightarrow> Inr i)"

text \<open>\<open>[c for c in chunks if c.metadata["id"] not in existing_ids]\<close>\<close>

fun new_chunks_of :: "string set \<Rightarrow> document list \<Rightarrow> py_error + document list" where
  "new_chunks_of existing_ids [] = Inr []"
| "new_chunks_of existing_ids (c # cs) =
     (case metadata_id c of
        Inl e \<Rightarrow> Inl e
      | Inr i \<Rightarrow>
          (case new_chunks_of existing_ids cs of
             Inl e \<Rightarrow> Inl e
           | Inr rest \<Rightarrow> Inr (if i \<notin> existing_ids then c # rest else rest)))"

text \<open>\<open>[c.metadata["id"] for c in new_chunks]\<close>\<close>

fun ids_of :: "document list \<Rightarrow> py_error + string list" where
  "ids_of [] = Inr []"
| "ids_of (c # cs) =
     (case metadata_id c of
        Inl e \<Rightarrow> Inl e
      | Inr i \<Rightarrow> (case ids_of cs of Inl e \<Rightarrow> Inl e | Inr rest \<Rightarrow> Inr (i # rest)))"

text \<open>
  \<open>add_to_chroma\<close>. The function returns nothing; the result here is how the call ends
  (normally or with an exception), the store after the call, and the caller's chunk list as
  the in-place assignment of identifiers leaves it. An exception leaves the store as it was.
\<close>

definition add_to_chroma ::
  "nat \<Rightarrow> store \<Rightarrow> document list \<Rightarrow> (py_error + unit) \<times> store \<times> document list" where
  "add_to_chroma max_batch_size db chunks0 =
     (let chunks = calculate_chunk_ids chunks0;
          existing_ids = set (get_ids db)
      in case new_chunks_of existing_ids chunks of
           Inl e \<Rightarrow> (Inl e, db, chunks)
         | Inr new_chunks \<Rightarrow>
             if new_chunks \<noteq> [] then
               (case ids_of new_chunks of
                  Inl e \<Rightarrow> (Inl e, db, chunks)
                | Inr ids \<Rightarrow>
                    (case add_documents max_batch_size db new_chunks ids of
                       Inl e \<Rightarrow> (Inl e, db, chunks)
                     | Inr db' \<Rightarrow> (Inr (), db', chunks)))
             else (Inr (), db, chunks))"

text \<open>
  The position key of a chunk, not yet rendered: the page number when there is one, else the start
  offset, else nothing (rendered \<open>unknown\<close>). It is the \<open>if/elif/else\<close> of
  \<open>calculate_chunk_ids\<close> before rendering.
\<close>

definition position_key :: "document \<Rightarrow> int option" where
  "position_key chunk =
     (case page (metadata chunk) of
        Some p \<Rightarrow> Some p
      | None \<Rightarrow> start_index (metadata chunk))"

text \<open>
  The ordinal rule in the specification's words, on the list of (source path, position key)
  pairs: keep the last pair seen and a counter; a pair equal to the previous one increments
  the counter, any other pair resets it to 0.
\<close>

fun spec_ordinals ::
  "(string \<times> int option) option \<Rightarrow> nat \<Rightarrow> (string \<times> int option) list \<Rightarrow> nat list" where
  "spec_ordinals previous counter [] = []"
| "spec_ordinals previous counter (p # ps) =
     (let ordinal = (if Some p = previous then counter + 1 else 0)
      in ordinal # spec_ordinals (Some p) ordinal ps)"

section \<open>Answering a query: app.py\<close>

subsection \<open>Strings\<close>

text \<open>\<open>sep.join(parts)\<close>\<close>

fun join :: "string \<Rightarrow> string list \<Rightarrow> string" where
  "join sep [] = []"
| "join sep [x] = x"
| "join sep (x # y # ys) = x @ sep @ join sep (y # ys)"

text \<open>
  \<open>str.title()\<close> on ASCII text: a letter that follows a letter is lower-cased, any other
  letter is upper-cased, everything else is kept.
\<close>

definition lower_letters :: string where
  "lower_letters = ''abcdefghijklmnopqrstuvwxyz''"

definition upper_letters :: string where
  "upper_letters = ''ABCDEFGHIJKLMNOPQRSTUVWXYZ''"

definition to_upper :: "char \<Rightarrow> char" where
  "to_upper c = (case map_of (zip lower_letters upper_letters) c of Some u \<Rightarrow> u | None \<Rightarrow> c)"

definition to_lower :: "char \<Rightarrow> char" where
  "to_lower c = (case map_of (zip upper_letters lower_letters) c of Some l \<Rightarrow> l | None \<Rightarrow> c)"

definition is_cased :: "char \<Rightarrow> bool" where
  "is_cased c = (c \<in> set lower_letters \<or> c \<in> set upper_letters)"

fun title_from :: "bool \<Rightarrow> string \<Rightarrow> string" where
  "title_from previous_is_cased [] = []"
| "title_from previous_is_cased (c # cs) =
     (if is_cased c
      then (if previous_is_cased then to_lower c else to_upper c) # title_from True cs
      else c # title_from False cs)"

definition title :: "string \<Rightarrow> string" where
  "title s = title_from False s"

text \<open>\<open>needle in haystack\<close> on strings: the needle occurs as a contiguous substring.\<close>

fun contains :: "string \<Rightarrow> string \<Rightarrow> bool" where
  "contains needle [] = (needle = [])"
| "contains needle (c # cs) = (prefix needle (c # cs) \<or> contains needle cs)"

text \<open>
  \<open>re.split(r'[\\:]', source)\<close>: the pieces between the separators, a backslash or a colon
  each; n separators give n + 1 pieces, empty ones included.
\<close>

fun re_split :: "string \<Rightarrow> string list" where
  "re_split [] = [Nil]"
| "re_split (c # cs) =
     (if c = CHR 0x5C \<or> c = CHR '':''
      then [] # re_split cs
      else (c # hd (re_split cs)) # tl (re_split cs))"

text \<open>\<open>xs[-3]\<close>: the third element from the end, \<open>IndexError\<close> when there are fewer than three.\<close>

definition third_from_end :: "'a list \<Rightarrow> py_error + 'a" where
  "third_from_end xs = (if length xs < 3 then Inl IndexError else Inr (xs ! (length xs - 3)))"

subsection \<open>Conversation store and channel\<close>

text \<open>
  A row of the \<open>ChatMessage\<close> table of model.py. The timestamp is the clock reading taken when
  the row is created (\<open>default=datetime.utcnow\<close>), a number here.
\<close>

record chat_message =
  msg_id :: nat
  chat_id :: string
  role :: string
  content :: string
  timestamp :: nat

text \<open>What \<open>emit\<close> sends, with the room it is sent to.\<close>

datatype event =
  start_stream nat
| stream_token string nat
| final_response string nat

record app_state =
  messages :: "chat_message list"
  emitted :: "(string \<times> event) list"

text \<open>
  \<open>db.session.add(msg); db.session.commit()\<close>: the row is appended and gets the next integer
  primary key.
\<close>

definition next_id :: "chat_message list \<Rightarrow> nat" where
  "next_id ms = Suc (fold max (map msg_id ms) 0)"

definition add_commit ::
  "string \<Rightarrow> string \<Rightarrow> string \<Rightarrow> nat \<Rightarrow> chat_message list \<Rightarrow> chat_message \<times> chat_message list" where
  "add_commit cid r c now ms =
     (let m = \<lparr>msg_id = next_id ms, chat_id = cid, role = r, content = c, timestamp = now\<rparr>
      in (m, ms @ [m]))"

text \<open>\<open>assistant_msg.content = response_html; db.session.commit()\<close>\<close>

definition update_content :: "nat \<Rightarrow> string \<Rightarrow> chat_message list \<Rightarrow> chat_message list" where
  "update_content mid c ms = map (\<lambda>m. if msg_id m = mid then m\<lparr>content := c\<rparr> else m) ms"

text \<open>
  \<open>ChatMessage.query.filter_by(chat_id=chat_id).order_by(ChatMessage.timestamp).all()[-10:]\<close>;
  rows with equal timestamps stay in insertion order.
\<close>

definition history_of :: "chat_message list \<Rightarrow> string \<Rightarrow> chat_message list" where
  "history_of ms cid =
     (let rows = sort_key timestamp (filter (\<lambda>m. chat_id m = cid) ms)
      in drop (length rows - 10) rows)"

definition history_line :: "chat_message \<Rightarrow> string" where
  "history_line m = title (role m) @ '': '' @ content m"

definition history_text_of :: "chat_message list \<Rightarrow> string" where
  "history_text_of history = join ''\<newline>'' (map history_line history)"

subsection \<open>Retrieved context and prompt\<close>

text \<open>
  \<open>results\<close> is what \<open>similarity_search_with_score\<close> returned: documents with their distance
  scores. The scores are floats in the source; the only operation on them is the comparison
  with 1.0, taken over the reals here.
\<close>

definition docs_text_of :: "(document \<times> real) list \<Rightarrow> string" where
  "docs_text_of results =
     (let joined = join ''\<newline>\<newline>---\<newline>\<newline>''
                     [page_content doc. (doc, score) \<leftarrow> results, score < 1]
      in if joined \<noteq> [] then joined else ''No relevant documents found.'')"

definition sources_of :: "(document \<times> real) list \<Rightarrow> string option list" where
  "sources_of results = [chunk_id (metadata doc). (doc, score) \<leftarrow> results, score < 1]"

definition template_head :: string where
  "template_head =
     ''\<newline>You are a knowledgeable and articulate assistant. \<newline>'' @
     ''Based solely on the context provided below, produce a detailed and self-contained answer to the question. \<newline>'' @
     ''Structure your answer with clear sections, such as:\<newline>\<newline>'' @
     ''1. **Overview:** A brief summary or introduction.\<newline>'' @
     ''2. **Key Details:** Explanation of the relevant facts or technical points.\<newline>'' @
     ''3. **Insights or Comparisons:** Any additional analysis, recommendations, or comparisons that help clarify the answer.\<newline>\<newline>'' @
     ''Do not refer to internal labels or figures from the context. Ensure your answer is easy to understand on its own.\<newline>\<newline>'' @
     ''Conversation So Far:\<newline>''"

text \<open>
  \<open>prompt_template.format(chat_history=..., context=..., question=...)\<close>, where
  \<open>prompt_template = ChatPromptTemplate.from_template(PROMPT_TEMPLATE)\<close>: a chat prompt of one
  human message. Its \<open>format\<close> fills the three places of the template and renders the message
  as text, which puts the role and a colon, \<open>Human: \<close>, in front of it.
\<close>

definition prompt_format :: "string \<Rightarrow> string \<Rightarrow> string \<Rightarrow> string" where
  "prompt_format chat_history context_text question =
     ''Human: '' @ template_head @ chat_history @
     ''\<newline>\<newline>Retrieved Context:\<newline>'' @ context_text @
     ''\<newline>\<newline>Question:\<newline>'' @ question @
     ''\<newline>\<newline>Answer:\<newline>''"

text \<open>Lines 224 to 235 of app.py, on the message table as it is when they run.\<close>

definition build_prompt :: "chat_message list \<Rightarrow> string \<Rightarrow> string \<Rightarrow> (document \<times> real) list \<Rightarrow> string" where
  "build_prompt ms cid query results =
     (let docs_text = docs_text_of results;
          history = history_of ms cid;
          history_text = history_text_of history
      in prompt_format history_text docs_text query)"

subsection \<open>Streaming and citations\<close>

text \<open>
  \<open>model.stream(prompt)\<close> yields tokens one after another and either ends or raises while it
  is iterated; the tokens yielded before the failure have been consumed by then.
\<close>

datatype stream_end = completed | failed

text \<open>The body of the \<open>for chunk in model.stream(prompt)\<close> loop, token by token.\<close>

fun stream_tokens ::
  "string \<Rightarrow> nat \<Rightarrow> string list \<Rightarrow> string \<times> (string \<times> event) list \<Rightarrow> string \<times> (string \<times> event) list" where
  "stream_tokens room mid [] (response_text, out) = (response_text, out)"
| "stream_tokens room mid (token # tokens) (response_text, out) =
     stream_tokens room mid tokens (response_text @ token, out @ [(room, stream_token token mid)])"

text \<open>The loop over \<open>sources\<close> that builds \<open>formatted_sources\<close>.\<close>

fun format_sources :: "string \<Rightarrow> string option list \<Rightarrow> py_error + string" where
  "format_sources formatted_sources [] = Inr formatted_sources"
| "format_sources formatted_sources (None # sources) = format_sources formatted_sources sources"
| "format_sources formatted_sources (Some src # sources) =
     (if src \<noteq> [] then
        (let split_string = re_split src in
         if length split_string > 1 then
           (case third_from_end split_string of
              Inl e \<Rightarrow> Inl e
            | Inr label \<Rightarrow>
                if \<not> contains label formatted_sources
                then format_sources (formatted_sources @ ''<li>'' @ label @ ''</li>\<newline>'') sources
                else format_sources formatted_sources sources)
         else format_sources formatted_sources sources)
      else format_sources formatted_sources sources)"

definition format_response :: "string \<Rightarrow> string \<Rightarrow> string" where
  "format_response response_text formatted_sources =
     (if formatted_sources \<noteq> []
      then response_text @ ''\<newline>\<newline><h4>Here my Sources:</h4>\<newline><ul>'' @ formatted_sources @ ''</ul>''
      else response_text)"

text \<open>
  \<open>handle_submit_query\<close>. Its parameters are the collaborators and the readings it takes from
  its environment: \<open>lm\<close> is the language model (prompt to token stream), \<open>markdown\<close> is
  \<open>markdown2.markdown\<close>, \<open>results\<close> is the retrieval result for the query, \<open>t_user\<close> and
  \<open>t_assistant\<close> are the clock readings for the two new rows. An exception leaves the
  handler with the state reached so far.
\<close>

definition handle_submit_query ::
  "(string \<Rightarrow> string list \<times> stream_end) \<Rightarrow> (string \<Rightarrow> string) \<Rightarrow> (document \<times> real) list \<Rightarrow>
   nat \<Rightarrow> nat \<Rightarrow> string \<Rightarrow> string \<Rightarrow> app_state \<Rightarrow> (py_error + unit) \<times> app_state" where
  "handle_submit_query lm markdown results t_user t_assistant query cid st =
     (let (user_msg, ms1) = add_commit cid ''user'' query t_user (messages st);
          (assistant_msg, ms2) = add_commit cid ''assistant'' ''Generating...'' t_assistant ms1;
          mid = msg_id assistant_msg;
          out1 = emitted st @ [(cid, start_stream mid)];
          prompt = build_prompt ms2 cid query results;
          (tokens, ending) = lm prompt;
          (response_text, out2) = stream_tokens cid mid tokens ([], out1)
      in case ending of
           failed \<Rightarrow> (Inl ModelUnavailable, \<lparr>messages = ms2, emitted = out2\<rparr>)
         | completed \<Rightarrow>
             (case format_sources [] (sources_of results) of
                Inl e \<Rightarrow> (Inl e, \<lparr>messages = ms2, emitted = out2\<rparr>)
              | Inr formatted_sources \<Rightarrow>
                  (let response_html = markdown (format_response response_text formatted_sources);
                       ms3 = update_content mid response_html ms2
                   in (Inr (), \<lparr>messages = ms3,
                                emitted = out2 @ [(cid, final_response response_html mid)]\<rparr>))))"

section \<open>Decimal rendering\<close>

lemma digit_char_cases:
  "d < 10 \<Longrightarrow> digit_char d \<in> set ''0123456789''"
  unfolding digit_char_def by (rule nth_mem) simp

lemma digit_char_inj:
  assumes "d < 10" "e < 10" "digit_char d = digit_char e"
  shows "d = e"
proof -
  have dist: "distinct ''0123456789''" by simp
  have "d < length ''0123456789''" "e < length ''0123456789''" using assms by simp_all
  with dist assms(3) show ?thesis
    unfolding digit_char_def by (simp only: nth_eq_iff_index_eq)
qed

lemma str_nat_digits: "set (str_nat n) \<subseteq> set ''0123456789''"
proof (induction n rule: str_nat.induct)
  case (1 n)
  show ?case
  proof (cases "n < 10")
    case True
    then show ?thesis using digit_char_cases [of n] by (subst str_nat.simps) simp
  next
    case False
    have "n mod 10 < 10" by simp
    from digit_char_cases [OF this] 1 [OF False] False show ?thesis
      by (subst str_nat.simps) simp
  qed
qed

lemma str_nat_not_Nil: "str_nat n \<noteq> []"
  by (subst str_nat.simps) simp

lemma str_nat_small: "n < 10 \<Longrightarrow> str_nat n = [digit_char n]"
  by (subst str_nat.simps) simp

lemma str_nat_large:
  "\<not> n < 10 \<Longrightarrow> str_nat n = str_nat (n div 10) @ [digit_char (n mod 10)]"
  by (subst str_nat.simps) simp

lemma str_nat_inj: "str_nat m = str_nat n \<Longrightarrow> m = n"
proof (induction m arbitrary: n rule: str_nat.induct)
  case (1 m)
  note eq = \<open>str_nat m = str_nat n\<close>
  show ?case
  proof (cases "m < 10")
    case True
    note m = this
    show ?thesis
    proof (cases "n < 10")
      case True
      from eq have "digit_char m = digit_char n"
        by (simp only: str_nat_small [OF m] str_nat_small [OF True] list.inject)
      with m True show ?thesis by (rule digit_char_inj)
    next
      case False
      from eq have "[digit_char m] = str_nat (n div 10) @ [digit_char (n mod 10)]"
        by (simp only: str_nat_small [OF m] str_nat_large [OF False])
      then have "str_nat (n div 10) = []" by simp
      with str_nat_not_Nil show ?thesis by blast
    qed
  next
    case False
    note m = this
    show ?thesis
    proof (cases "n < 10")
      case True
      from eq have "str_nat (m div 10) @ [digit_char (m mod 10)] = [digit_char n]"
        by (simp only: str_nat_small [OF True] str_nat_large [OF m])
      then have "str_nat (m div 10) = []" by simp
      with str_nat_not_Nil show ?thesis by blast
    next
      case False
      from eq have "str_nat (m div 10) @ [digit_char (m mod 10)]
          = str_nat (n div 10) @ [digit_char (n mod 10)]"
        by (simp only: str_nat_large [OF False] str_nat_large [OF m])
      then have e: "str_nat (m div 10) = str_nat (n div 10)"
        and d: "digit_char (m mod 10) = digit_char (n mod 10)"
        by simp_all
      from 1(1) [OF m e] have "m div 10 = n div 10" .
      moreover have "m mod 10 = n mod 10"
        by (rule digit_char_inj [OF _ _ d]) simp_all
      ultimately show ?thesis by (metis div_mult_mod_eq)
    qed
  qed
qed

lemma str_nat_no_minus: "CHR ''-'' \<notin> set (str_nat n)"
proof -
  have "CHR ''-'' \<notin> set ''0123456789''" by simp
  with str_nat_digits [of n] show ?thesis by blast
qed

lemma str_nat_no_colon: "CHR '':'' \<notin> set (str_nat n)"
proof -
  have "CHR '':'' \<notin> set ''0123456789''" by simp
  with str_nat_digits [of n] show ?thesis by blast
qed

lemma str_int_no_colon: "CHR '':'' \<notin> set (str_int i)"
  using str_nat_no_colon by (simp add: str_int_def)

lemma hd_str_nat: "hd (str_nat n) \<noteq> CHR ''-''"
proof
  assume "hd (str_nat n) = CHR ''-''"
  moreover have "hd (str_nat n) \<in> set (str_nat n)"
    by (rule hd_in_set) (rule str_nat_not_Nil)
  ultimately show False using str_nat_no_minus [of n] by simp
qed

lemma str_int_inj: "str_int i = str_int j \<Longrightarrow> i = j"
proof -
  assume eq: "str_int i = str_int j"
  show ?thesis
  proof (cases "i < 0")
    case True
    note i = this
    show ?thesis
    proof (cases "j < 0")
      case True
      with i eq have "str_nat (nat (- i)) = str_nat (nat (- j))" by (simp add: str_int_def)
      then have "nat (- i) = nat (- j)" by (rule str_nat_inj)
      with i True show ?thesis by simp
    next
      case False
      with i eq have "CHR ''-'' # str_nat (nat (- i)) = str_nat (nat j)" by (simp add: str_int_def)
      then have "hd (str_nat (nat j)) = CHR ''-''" by (metis list.sel(1))
      with hd_str_nat show ?thesis by blast
    qed
  next
    case False
    note i = this
    show ?thesis
    proof (cases "j < 0")
      case True
      with i eq have "str_nat (nat i) = CHR ''-'' # str_nat (nat (- j))" by (simp add: str_int_def)
      then have "hd (str_nat (nat i)) = CHR ''-''" by simp
      with hd_str_nat show ?thesis by blast
    next
      case False
      with i eq have "str_nat (nat i) = str_nat (nat j)" by (simp add: str_int_def)
      then have "nat i = nat j" by (rule str_nat_inj)
      with i False show ?thesis by simp
    qed
  qed
qed

lemma str_int_not_unknown: "str_int i \<noteq> ''unknown''"
proof
  assume "str_int i = ''unknown''"
  then have "CHR ''u'' \<in> set (str_int i)" by simp
  moreover have "CHR ''u'' \<notin> set (str_nat n)" for n
  proof -
    have "CHR ''u'' \<notin> set ''0123456789''" by simp
    with str_nat_digits [of n] show ?thesis by blast
  qed
  ultimately show False by (simp add: str_int_def split: if_splits)
qed

section \<open>Identifier assignment and incremental indexing\<close>

lemma colon_split_unique:
  assumes "CHR '':'' \<notin> set b" "CHR '':'' \<notin> set b'" "a @ CHR '':'' # b = a' @ CHR '':'' # b'"
  shows "a = a' \<and> b = b'"
  using assms
proof (induction a arbitrary: a')
  case Nil
  then show ?case by (cases a') auto
next
  case (Cons x xs)
  show ?case
  proof (cases a')
    case Nil
    with Cons.prems show ?thesis by auto
  next
    case (Cons y ys)
    with Cons.prems Cons.IH [of ys] show ?thesis by auto
  qed
qed

lemma identifier_of_no_colon: "CHR '':'' \<notin> set (identifier_of c)"
  by (simp add: identifier_of_def str_int_no_colon split: option.splits)

lemma current_identifier_of_update [simp]:
  "current_identifier_of (c\<lparr>metadata := (metadata c)\<lparr>chunk_id := x\<rparr>\<rparr>) = current_identifier_of c"
  by (simp add: current_identifier_of_def source_of_def identifier_of_def split: option.splits)

lemma assign_ids_has_id:
  "c \<in> set (assign_ids l i cs) \<Longrightarrow> \<exists>k. chunk_id (metadata c) = Some k"
  by (induction cs arbitrary: l i) (auto simp: Let_def)

lemma assign_ids_assign_ids: "assign_ids l i (assign_ids l' i' cs) = assign_ids l i cs"
  by (induction cs arbitrary: l i l' i') (simp_all add: Let_def)

lemma calculate_chunk_ids_twice:
  "calculate_chunk_ids (calculate_chunk_ids cs) = calculate_chunk_ids cs"
  by (simp add: calculate_chunk_ids_def assign_ids_assign_ids)

lemma new_chunks_of_with_ids:
  assumes "\<forall>c\<in>set cs. \<exists>k. chunk_id (metadata c) = Some k"
  shows "\<exists>ncs. new_chunks_of E cs = Inr ncs \<and> set ncs \<subseteq> set cs
           \<and> (\<forall>c\<in>set ncs. \<exists>k. chunk_id (metadata c) = Some k \<and> k \<notin> E)
           \<and> (\<forall>c\<in>set cs. \<forall>k. chunk_id (metadata c) = Some k \<and> k \<notin> E \<longrightarrow> c \<in> set ncs)"
  using assms
proof (induction cs)
  case Nil
  then show ?case by simp
next
  case (Cons c cs)
  then obtain k where k: "chunk_id (metadata c) = Some k" by auto
  from Cons obtain ncs where n: "new_chunks_of E cs = Inr ncs" "set ncs \<subseteq> set cs"
    "\<forall>c\<in>set ncs. \<exists>k. chunk_id (metadata c) = Some k \<and> k \<notin> E"
    "\<forall>c\<in>set cs. \<forall>k. chunk_id (metadata c) = Some k \<and> k \<notin> E \<longrightarrow> c \<in> set ncs"
    by auto
  show ?case
  proof (cases "k \<in> E")
    case True
    with k n show ?thesis by (auto simp: metadata_id_def)
  next
    case False
    with k n show ?thesis by (auto simp: metadata_id_def)
  qed
qed

lemma ids_of_with_ids:
  assumes "\<forall>c\<in>set cs. \<exists>k. chunk_id (metadata c) = Some k"
  shows "\<exists>ids. ids_of cs = Inr ids \<and> length ids = length cs
           \<and> (\<forall>c\<in>set cs. \<forall>k. chunk_id (metadata c) = Some k \<longrightarrow> k \<in> set ids)"
  using assms
proof (induction cs)
  case Nil
  then show ?case by simp
next
  case (Cons c cs)
  then obtain k where k: "chunk_id (metadata c) = Some k" by auto
  from Cons obtain ids where "ids_of cs = Inr ids" "length ids = length cs"
    "\<forall>c\<in>set cs. \<forall>k. chunk_id (metadata c) = Some k \<longrightarrow> k \<in> set ids"
    by auto
  with k show ?case by (auto simp: metadata_id_def)
qed

lemma set_get_ids_upsert: "set (get_ids (upsert k d db)) = insert k (set (get_ids db))"
  by (induction k d db rule: upsert.induct) (auto simp: get_ids_def)

lemma set_get_ids_upsert_all:
  "length ds = length ks \<Longrightarrow>
     set (get_ids (upsert_all db ds ks)) = set (get_ids db) \<union> set ks"
proof (induction db ds ks rule: upsert_all.induct)
  case (1 db d ds k ks)
  then show ?case by (simp add: set_get_ids_upsert)
qed simp_all

lemma new_chunks_of_all_existing:
  assumes "\<forall>c\<in>set cs. \<exists>k. chunk_id (metadata c) = Some k \<and> k \<in> E"
  shows "new_chunks_of E cs = Inr []"
  using assms by (induction cs) (auto simp: metadata_id_def)

lemma add_to_chroma_calculated:
  "add_to_chroma B db (calculate_chunk_ids chunks) = add_to_chroma B db chunks"
  by (simp add: add_to_chroma_def calculate_chunk_ids_twice)

lemma add_to_chroma_nothing_new:
  "new_chunks_of (set (get_ids db)) (calculate_chunk_ids chunks) = Inr [] \<Longrightarrow>
     add_to_chroma B db chunks = (Inr (), db, calculate_chunk_ids chunks)"
  by (simp add: add_to_chroma_def)

text \<open>
  The three ways a call of \<open>add_to_chroma\<close> ends: nothing was new, the store refused the
  batch, or the batch was stored and every identifier of the chunk list is in the store.
\<close>

lemma add_to_chroma_cases:
  obtains
    (nothing) "add_to_chroma B db chunks = (Inr (), db, calculate_chunk_ids chunks)"
      "new_chunks_of (set (get_ids db)) (calculate_chunk_ids chunks) = Inr []"
  | (refused) e where "add_to_chroma B db chunks = (Inl e, db, calculate_chunk_ids chunks)"
  | (stored) db' where "add_to_chroma B db chunks = (Inr (), db', calculate_chunk_ids chunks)"
      "\<forall>c\<in>set (calculate_chunk_ids chunks).
         \<exists>k. chunk_id (metadata c) = Some k \<and> k \<in> set (get_ids db')"
proof -
  let ?cs = "calculate_chunk_ids chunks"
  let ?E = "set (get_ids db)"
  have has: "\<forall>c\<in>set ?cs. \<exists>k. chunk_id (metadata c) = Some k"
    unfolding calculate_chunk_ids_def by (blast dest: assign_ids_has_id)
  from new_chunks_of_with_ids [OF has, of ?E] obtain ncs where
    n: "new_chunks_of ?E ?cs = Inr ncs" "set ncs \<subseteq> set ?cs"
       "\<forall>c\<in>set ?cs. \<forall>k. chunk_id (metadata c) = Some k \<and> k \<notin> ?E \<longrightarrow> c \<in> set ncs"
    by blast
  from has n(2) have has': "\<forall>c\<in>set ncs. \<exists>k. chunk_id (metadata c) = Some k" by blast
  from ids_of_with_ids [OF has'] obtain ids where
    i: "ids_of ncs = Inr ids" "length ids = length ncs"
       "\<forall>c\<in>set ncs. \<forall>k. chunk_id (metadata c) = Some k \<longrightarrow> k \<in> set ids"
    by blast
  show thesis
  proof (cases "ncs = []")
    case True
    with n(1) have e: "new_chunks_of ?E ?cs = Inr []" by simp
    from add_to_chroma_nothing_new [OF e] e show thesis by (rule nothing)
  next
    case False
    note ne = this
    show thesis
    proof (cases "add_documents B db ncs ids")
      case (Inl e)
      with ne n(1) i(1) have "add_to_chroma B db chunks = (Inl e, db, ?cs)"
        by (simp add: add_to_chroma_def)
      then show thesis by (rule refused)
    next
      case (Inr db')
      with ne n(1) i(1) have r: "add_to_chroma B db chunks = (Inr (), db', ?cs)"
        by (simp add: add_to_chroma_def)
      from Inr have "db' = upsert_all db ncs ids"
        by (simp add: add_documents_def split: if_splits)
      with i(2) have s: "set (get_ids db') = ?E \<union> set ids"
        by (simp add: set_get_ids_upsert_all)
      have "\<exists>k. chunk_id (metadata c) = Some k \<and> k \<in> ?E \<union> set ids" if "c \<in> set ?cs" for c
      proof -
        from has that obtain k where k: "chunk_id (metadata c) = Some k" by blast
        show ?thesis
        proof (cases "k \<in> ?E")
          case True
          with k show ?thesis by simp
        next
          case False
          with n(3) that k have "c \<in> set ncs" by blast
          with i(3) k show ?thesis by auto
        qed
      qed
      with s have "\<forall>c\<in>set ?cs. \<exists>k. chunk_id (metadata c) = Some k \<and> k \<in> set (get_ids db')"
        by simp
      with r show thesis by (rule stored)
    qed
  qed
qed

text \<open>
  The store does refuse: three chunks of one file with the pages 1, 2, 1 get the identifier
  \<open>a.pdf:1:0\<close> twice, and the call ends with \<open>DuplicateIDError\<close> and an empty store.
\<close>

lemma add_to_chroma_duplicate_batch_refused:
  "fst (add_to_chroma 100 []
     [\<lparr>page_content = ''a'', metadata = \<lparr>source = Some ''a.pdf'', page = Some 1, start_index = None, chunk_id = None\<rparr>\<rparr>,
      \<lparr>page_content = ''b'', metadata = \<lparr>source = Some ''a.pdf'', page = Some 2, start_index = None, chunk_id = None\<rparr>\<rparr>,
      \<lparr>page_content = ''c'', metadata = \<lparr>source = Some ''a.pdf'', page = Some 1, start_index = None, chunk_id = None\<rparr>\<rparr>])
     = Inl DuplicateIDError
   \<and> fst (snd (add_to_chroma 100 []
     [\<lparr>page_content = ''a'', metadata = \<lparr>source = Some ''a.pdf'', page = Some 1, start_index = None, chunk_id = None\<rparr>\<rparr>,
      \<lparr>page_content = ''b'', metadata = \<lparr>source = Some ''a.pdf'', page = Some 2, start_index = None, chunk_id = None\<rparr>\<rparr>,
      \<lparr>page_content = ''c'', metadata = \<lparr>source = Some ''a.pdf'', page = Some 1, start_index = None, chunk_id = None\<rparr>\<rparr>]))
     = []"
  by (simp add: add_to_chroma_def calculate_chunk_ids_def current_identifier_of_def source_of_def
      identifier_of_def str_int_def str_nat.simps digit_char_def get_ids_def metadata_id_def
      add_documents_def)

text \<open>
  Claim C1 (idempotent indexing). Call \<open>add_to_chroma\<close> on a store and a chunk list, then call
  it again on the resulting store with the same chunks (as the first call left them, or as they
  were given). Whatever the store, the chunks and the store's batch limit, the second call
  leaves the store exactly as the first call left it and ends the way the first call ended.
  When the first call returned normally, the second call finds no new chunk, so it adds
  nothing; when the first call was refused by the store, it had stored nothing and the second
  call is refused in the same way.
\<close>

theorem add_to_chroma_idempotent:
  "(case add_to_chroma max_batch_size db chunks of
      (r1, db1, chunks1) \<Rightarrow>
        add_to_chroma max_batch_size db1 chunks1 = (r1, db1, chunks1)
        \<and> add_to_chroma max_batch_size db1 chunks = (r1, db1, chunks1)
        \<and> (r1 = Inr () \<longrightarrow>
             new_chunks_of (set (get_ids db1)) (calculate_chunk_ids chunks1) = Inr [])
        \<and> (r1 \<noteq> Inr () \<longrightarrow> db1 = db))"
proof (cases rule: add_to_chroma_cases [of max_batch_size db chunks])
  case nothing
  then show ?thesis
    by (simp add: add_to_chroma_calculated calculate_chunk_ids_twice)
next
  case (refused e)
  then show ?thesis
    by (simp add: add_to_chroma_calculated)
next
  case (stored db')
  from stored(2) have n: "new_chunks_of (set (get_ids db')) (calculate_chunk_ids chunks) = Inr []"
    by (rule new_chunks_of_all_existing)
  then have "add_to_chroma max_batch_size db' chunks = (Inr (), db', calculate_chunk_ids chunks)"
    by (rule add_to_chroma_nothing_new)
  with stored(1) n show ?thesis
    by (simp add: add_to_chroma_calculated calculate_chunk_ids_twice)
qed

theorem add_to_chroma_idempotent_witness:
  "add_to_chroma 100 []
     [\<lparr>page_content = ''a'', metadata = \<lparr>source = Some ''a.pdf'', page = Some 1, start_index = None, chunk_id = None\<rparr>\<rparr>,
      \<lparr>page_content = ''b'', metadata = \<lparr>source = Some ''a.pdf'', page = Some 2, start_index = None, chunk_id = None\<rparr>\<rparr>]
   = (Inr (),
      [(''a.pdf:1:0'', \<lparr>page_content = ''a'', metadata = \<lparr>source = Some ''a.pdf'', page = Some 1, start_index = None, chunk_id = Some ''a.pdf:1:0''\<rparr>\<rparr>),
       (''a.pdf:2:0'', \<lparr>page_content = ''b'', metadata = \<lparr>source = Some ''a.pdf'', page = Some 2, start_index = None, chunk_id = Some ''a.pdf:2:0''\<rparr>\<rparr>)],
      [\<lparr>page_content = ''a'', metadata = \<lparr>source = Some ''a.pdf'', page = Some 1, start_index = None, chunk_id = Some ''a.pdf:1:0''\<rparr>\<rparr>,
       \<lparr>page_content = ''b'', metadata = \<lparr>source = Some ''a.pdf'', page = Some 2, start_index = None, chunk_id = Some ''a.pdf:2:0''\<rparr>\<rparr>])
   \<and> add_to_chroma 100
      [(''a.pdf:1:0'', \<lparr>page_content = ''a'', metadata = \<lparr>source = Some ''a.pdf'', page = Some 1, start_index = None, chunk_id = Some ''a.pdf:1:0''\<rparr>\<rparr>),
       (''a.pdf:2:0'', \<lparr>page_content = ''b'', metadata = \<lparr>source = Some ''a.pdf'', page = Some 2, start_index = None, chunk_id = Some ''a.pdf:2:0''\<rparr>\<rparr>)]
      [\<lparr>page_content = ''a'', metadata = \<lparr>source = Some ''a.pdf'', page = Some 1, start_index = None, chunk_id = Some ''a.pdf:1:0''\<rparr>\<rparr>,
       \<lparr>page_content = ''b'', metadata = \<lparr>source = Some ''a.pdf'', page = Some 2, start_index = None, chunk_id = Some ''a.pdf:2:0''\<rparr>\<rparr>]
   = (Inr (),
      [(''a.pdf:1:0'', \<lparr>page_content = ''a'', metadata = \<lparr>source = Some ''a.pdf'', page = Some 1, start_index = None, chunk_id = Some ''a.pdf:1:0''\<rparr>\<rparr>),
       (''a.pdf:2:0'', \<lparr>page_content = ''b'', metadata = \<lparr>source = Some ''a.pdf'', page = Some 2, start_index = None, chunk_id = Some ''a.pdf:2:0''\<rparr>\<rparr>)],
      [\<lparr>page_content = ''a'', metadata = \<lparr>source = Some ''a.pdf'', page = Some 1, start_index = None, chunk_id = Some ''a.pdf:1:0''\<rparr>\<rparr>,
       \<lparr>page_content = ''b'', metadata = \<lparr>source = Some ''a.pdf'', page = Some 2, start_index = None, chunk_id = Some ''a.pdf:2:0''\<rparr>\<rparr>])"
proof -
  have first: "add_to_chroma 100 []
     [\<lparr>page_content = ''a'', metadata = \<lparr>source = Some ''a.pdf'', page = Some 1, start_index = None, chunk_id = None\<rparr>\<rparr>,
      \<lparr>page_content = ''b'', metadata = \<lparr>source = Some ''a.pdf'', page = Some 2, start_index = None, chunk_id = None\<rparr>\<rparr>]
   = (Inr (),
      [(''a.pdf:1:0'', \<lparr>page_content = ''a'', metadata = \<lparr>source = Some ''a.pdf'', page = Some 1, start_index = None, chunk_id = Some ''a.pdf:1:0''\<rparr>\<rparr>),
       (''a.pdf:2:0'', \<lparr>page_content = ''b'', metadata = \<lparr>source = Some ''a.pdf'', page = Some 2, start_index = None, chunk_id = Some ''a.pdf:2:0''\<rparr>\<rparr>)],
      [\<lparr>page_content = ''a'', metadata = \<lparr>source = Some ''a.pdf'', page = Some 1, start_index = None, chunk_id = Some ''a.pdf:1:0''\<rparr>\<rparr>,
       \<lparr>page_content = ''b'', metadata = \<lparr>source = Some ''a.pdf'', page = Some 2, start_index = None, chunk_id = Some ''a.pdf:2:0''\<rparr>\<rparr>])"
    by (simp add: add_to_chroma_def calculate_chunk_ids_def current_identifier_of_def source_of_def
        identifier_of_def str_int_def str_nat.simps digit_char_def get_ids_def metadata_id_def
        add_documents_def)
  from add_to_chroma_idempotent [where max_batch_size = 100 and db = "[]" and chunks =
     "[\<lparr>page_content = ''a'', metadata = \<lparr>source = Some ''a.pdf'', page = Some 1, start_index = None, chunk_id = None\<rparr>\<rparr>,
      \<lparr>page_content = ''b'', metadata = \<lparr>source = Some ''a.pdf'', page = Some 2, start_index = None, chunk_id = None\<rparr>\<rparr>]"]
  show ?thesis
    unfolding first by simp
qed

section \<open>The identifiers that calculate_chunk_ids assigns\<close>

lemma identifier_of_position_key:
  "identifier_of c = (case position_key c of Some k \<Rightarrow> str_int k | None \<Rightarrow> ''unknown'')"
  by (simp add: identifier_of_def position_key_def split: option.splits)

lemma identifier_of_eq_iff:
  "identifier_of c = identifier_of c' \<longleftrightarrow> position_key c = position_key c'"
proof
  assume eq: "identifier_of c = identifier_of c'"
  show "position_key c = position_key c'"
  proof (cases "position_key c")
    case None
    note c = this
    show ?thesis
    proof (cases "position_key c'")
      case None
      with c show ?thesis by simp
    next
      case (Some k')
      with c eq str_int_not_unknown [of k'] show ?thesis
        by (simp add: identifier_of_position_key)
    qed
  next
    case (Some k)
    note c = this
    show ?thesis
    proof (cases "position_key c'")
      case None
      with c eq str_int_not_unknown [of k] show ?thesis
        by (simp add: identifier_of_position_key)
    next
      case (Some k')
      with c eq have "str_int k = str_int k'" by (simp add: identifier_of_position_key)
      then have "k = k'" by (rule str_int_inj)
      with c Some show ?thesis by simp
    qed
  qed
next
  assume "position_key c = position_key c'"
  then show "identifier_of c = identifier_of c'" by (simp add: identifier_of_position_key)
qed

lemma current_identifier_of_eq_iff:
  "current_identifier_of c = current_identifier_of c' \<longleftrightarrow>
     (source_of c, position_key c) = (source_of c', position_key c')"
proof
  assume "current_identifier_of c = current_identifier_of c'"
  then have "source_of c @ CHR '':'' # identifier_of c = source_of c' @ CHR '':'' # identifier_of c'"
    by (simp add: current_identifier_of_def)
  with colon_split_unique [OF identifier_of_no_colon identifier_of_no_colon]
  have "source_of c = source_of c' \<and> identifier_of c = identifier_of c'" by blast
  then show "(source_of c, position_key c) = (source_of c', position_key c')"
    by (simp add: identifier_of_eq_iff)
next
  assume "(source_of c, position_key c) = (source_of c', position_key c')"
  then show "current_identifier_of c = current_identifier_of c'"
    by (simp add: current_identifier_of_def identifier_of_position_key)
qed

lemma assign_ids_refines:
  "map (chunk_id \<circ> metadata) (assign_ids (map_option current_identifier_of previous) n cs) =
     map2 (\<lambda>c k. Some (current_identifier_of c @ '':'' @ str_nat k)) cs
       (spec_ordinals (map_option (\<lambda>c. (source_of c, position_key c)) previous) n
          (map (\<lambda>c. (source_of c, position_key c)) cs))"
proof (induction cs arbitrary: previous n)
  case Nil
  show ?case by simp
next
  case (Cons c cs)
  have same: "Some (current_identifier_of c) = map_option current_identifier_of previous \<longleftrightarrow>
      Some (source_of c, position_key c) = map_option (\<lambda>c. (source_of c, position_key c)) previous"
    by (cases previous) (simp_all add: current_identifier_of_eq_iff)
  from Cons.IH [of "Some c"] same show ?case
    by (simp add: Let_def)
qed

lemma calculate_chunk_ids_refines:
  "map (chunk_id \<circ> metadata) (calculate_chunk_ids cs) =
     map2 (\<lambda>c k. Some (source_of c @ '':'' @ identifier_of c @ '':'' @ str_nat k)) cs
       (spec_ordinals None 0 (map (\<lambda>c. (source_of c, position_key c)) cs))"
  using assign_ids_refines [of None 0 cs]
  by (simp add: calculate_chunk_ids_def current_identifier_of_def)


text \<open>
  Claim C2 (batch uniqueness), evaluated on three chunks of one file whose page numbers are
  1, 2, 1: the counter restarts at the third chunk, so the first and the third chunk get the
  same identifier.
\<close>

theorem calculate_chunk_ids_repeats_identifier:
  "map (chunk_id \<circ> metadata)
     (calculate_chunk_ids
        [\<lparr>page_content = ''a'', metadata = \<lparr>source = Some ''a.pdf'', page = Some 1, start_index = None, chunk_id = None\<rparr>\<rparr>,
         \<lparr>page_content = ''b'', metadata = \<lparr>source = Some ''a.pdf'', page = Some 2, start_index = None, chunk_id = None\<rparr>\<rparr>,
         \<lparr>page_content = ''c'', metadata = \<lparr>source = Some ''a.pdf'', page = Some 1, start_index = None, chunk_id = None\<rparr>\<rparr>])
   = [Some ''a.pdf:1:0'', Some ''a.pdf:2:0'', Some ''a.pdf:1:0'']"
  by (simp add: calculate_chunk_ids_def current_identifier_of_def source_of_def identifier_of_def
      str_int_def str_nat.simps digit_char_def)

text \<open>
  Claim C3 (ordinal assignment rule). The identifiers that \<open>calculate_chunk_ids\<close> assigns carry
  the ordinals of the specification's rule, which compares (source path, position key) pairs:
  the ordinal is the previous one plus 1 when the pair equals the preceding chunk's pair and 0
  otherwise. Four chunks of one source with position keys a, a, b, a (a and b different) get
  the ordinals 0, 1, 0, 0.
\<close>

theorem calculate_chunk_ids_ordinals:
  "map (chunk_id \<circ> metadata) (calculate_chunk_ids cs) =
     map2 (\<lambda>c k. Some (source_of c @ '':'' @ identifier_of c @ '':'' @ str_nat k)) cs
       (spec_ordinals None 0 (map (\<lambda>c. (source_of c, position_key c)) cs))
   \<and> (a \<noteq> b \<longrightarrow>
        map (\<lambda>c. (source_of c, position_key c)) cs = [(s, a), (s, a), (s, b), (s, a)] \<longrightarrow>
        map (chunk_id \<circ> metadata) (calculate_chunk_ids cs) =
          map2 (\<lambda>c k. Some (source_of c @ '':'' @ identifier_of c @ '':'' @ str_nat k)) cs
            [0, 1, 0, 0])"
proof (intro conjI impI)
  show "map (chunk_id \<circ> metadata) (calculate_chunk_ids cs) =
     map2 (\<lambda>c k. Some (source_of c @ '':'' @ identifier_of c @ '':'' @ str_nat k)) cs
       (spec_ordinals None 0 (map (\<lambda>c. (source_of c, position_key c)) cs))"
    by (rule calculate_chunk_ids_refines)
next
  assume ab: "a \<noteq> b"
    and ps: "map (\<lambda>c. (source_of c, position_key c)) cs = [(s, a), (s, a), (s, b), (s, a)]"
  from ab have "spec_ordinals None 0 [(s, a), (s, a), (s, b), (s, a)] = [0, 1, 0, 0]"
    by (simp add: Let_def)
  with ps calculate_chunk_ids_refines [of cs]
  show "map (chunk_id \<circ> metadata) (calculate_chunk_ids cs) =
          map2 (\<lambda>c k. Some (source_of c @ '':'' @ identifier_of c @ '':'' @ str_nat k)) cs
            [0, 1, 0, 0]"
    by simp
qed

theorem calculate_chunk_ids_ordinals_witness:
  "Some (1::int) \<noteq> Some 2 \<and>
   map (chunk_id \<circ> metadata)
     (calculate_chunk_ids
        [\<lparr>page_content = ''p'', metadata = \<lparr>source = Some ''a.pdf'', page = Some 1, start_index = None, chunk_id = None\<rparr>\<rparr>,
         \<lparr>page_content = ''q'', metadata = \<lparr>source = Some ''a.pdf'', page = Some 1, start_index = None, chunk_id = None\<rparr>\<rparr>,
         \<lparr>page_content = ''r'', metadata = \<lparr>source = Some ''a.pdf'', page = Some 2, start_index = None, chunk_id = None\<rparr>\<rparr>,
         \<lparr>page_content = ''s'', metadata = \<lparr>source = Some ''a.pdf'', page = Some 1, start_index = None, chunk_id = None\<rparr>\<rparr>])
   = [Some ''a.pdf:1:0'', Some ''a.pdf:1:1'', Some ''a.pdf:2:0'', Some ''a.pdf:1:0'']"
  using calculate_chunk_ids_ordinals
    [of "[\<lparr>page_content = ''p'', metadata = \<lparr>source = Some ''a.pdf'', page = Some 1, start_index = None, chunk_id = None\<rparr>\<rparr>,
         \<lparr>page_content = ''q'', metadata = \<lparr>source = Some ''a.pdf'', page = Some 1, start_index = None, chunk_id = None\<rparr>\<rparr>,
         \<lparr>page_content = ''r'', metadata = \<lparr>source = Some ''a.pdf'', page = Some 2, start_index = None, chunk_id = None\<rparr>\<rparr>,
         \<lparr>page_content = ''s'', metadata = \<lparr>source = Some ''a.pdf'', page = Some 1, start_index = None, chunk_id = None\<rparr>\<rparr>]"
        "Some 1" "Some 2" "''a.pdf''"]
  by (simp add: source_of_def position_key_def identifier_of_def str_int_def str_nat.simps
      digit_char_def)


section \<open>Answering a query\<close>

lemma stream_tokens_eq:
  "stream_tokens room mid tokens (response_text, out) =
     (response_text @ concat tokens, out @ map (\<lambda>t. (room, stream_token t mid)) tokens)"
  by (induction tokens arbitrary: response_text out) simp_all

lemma next_id_snoc: "next_id (ms @ [m]) = Suc (max (msg_id m) (fold max (map msg_id ms) 0))"
  by (simp add: next_id_def)

lemma docs_text_of_skip:
  "1 \<le> score \<Longrightarrow> docs_text_of (xs @ (doc, score) # ys) = docs_text_of (xs @ ys)"
  by (simp add: docs_text_of_def)

lemma sources_of_skip:
  "1 \<le> score \<Longrightarrow> sources_of (xs @ (doc, score) # ys) = sources_of (xs @ ys)"
  by (simp add: sources_of_def)

text \<open>
  Claim C5 (relevance threshold filter). A retrieved result whose score is 1.0 or more
  contributes nothing: with it or without it the context block, the sources list and the whole
  run of the handler are the same. Both the context block and the sources list are computed
  from the results with score below 1.0 alone.
\<close>

theorem relevance_threshold_filter:
  assumes "1 \<le> score"
  shows "docs_text_of (xs @ (doc, score) # ys) = docs_text_of (xs @ ys)
     \<and> sources_of (xs @ (doc, score) # ys) = sources_of (xs @ ys)
     \<and> handle_submit_query lm markdown (xs @ (doc, score) # ys) t_user t_assistant query cid st =
         handle_submit_query lm markdown (xs @ ys) t_user t_assistant query cid st
     \<and> docs_text_of results = docs_text_of (filter (\<lambda>(d, s). s < 1) results)
     \<and> sources_of results = map (\<lambda>(d, s). chunk_id (metadata d)) (filter (\<lambda>(d, s). s < 1) results)"
proof (intro conjI)
  show "docs_text_of (xs @ (doc, score) # ys) = docs_text_of (xs @ ys)"
    using assms by (rule docs_text_of_skip)
  show "sources_of (xs @ (doc, score) # ys) = sources_of (xs @ ys)"
    using assms by (rule sources_of_skip)
  show "handle_submit_query lm markdown (xs @ (doc, score) # ys) t_user t_assistant query cid st =
         handle_submit_query lm markdown (xs @ ys) t_user t_assistant query cid st"
    unfolding handle_submit_query_def build_prompt_def
    by (simp only: docs_text_of_skip [OF assms] sources_of_skip [OF assms])
  have "concat (map (\<lambda>x. case x of (d, s) \<Rightarrow> if s < 1 then [f d] else []) rs) =
      map (\<lambda>(d, s). f d) (filter (\<lambda>(d, s). s < 1) rs)"
    for f :: "document \<Rightarrow> 'b" and rs :: "(document \<times> real) list"
    by (induction rs) auto
  note comprehension = this
  have "filter (\<lambda>(d, s). s < 1) (filter (\<lambda>(d, s). s < 1) results) = filter (\<lambda>(d, s). s < (1::real)) results"
    by (induction results) auto
  then show "docs_text_of results = docs_text_of (filter (\<lambda>(d, s). s < 1) results)"
    by (simp add: docs_text_of_def comprehension)
  show "sources_of results = map (\<lambda>(d, s). chunk_id (metadata d)) (filter (\<lambda>(d, s). s < 1) results)"
    by (simp add: sources_of_def comprehension)
qed

theorem relevance_threshold_filter_witness:
  "(1::real) \<le> 3 / 2
   \<and> docs_text_of
       [(\<lparr>page_content = ''near'', metadata = \<lparr>source = Some ''a.pdf'', page = None, start_index = Some 0, chunk_id = Some ''a.pdf:0:0''\<rparr>\<rparr>, 1 / 2),
        (\<lparr>page_content = ''far'', metadata = \<lparr>source = Some ''b.pdf'', page = None, start_index = Some 0, chunk_id = Some ''b.pdf:0:0''\<rparr>\<rparr>, 3 / 2)]
     = ''near''
   \<and> sources_of
       [(\<lparr>page_content = ''near'', metadata = \<lparr>source = Some ''a.pdf'', page = None, start_index = Some 0, chunk_id = Some ''a.pdf:0:0''\<rparr>\<rparr>, 1 / 2),
        (\<lparr>page_content = ''far'', metadata = \<lparr>source = Some ''b.pdf'', page = None, start_index = Some 0, chunk_id = Some ''b.pdf:0:0''\<rparr>\<rparr>, 3 / 2)]
     = [Some ''a.pdf:0:0'']"
proof -
  have h: "(1::real) \<le> 3 / 2" by simp
  have base: "docs_text_of
       [(\<lparr>page_content = ''near'', metadata = \<lparr>source = Some ''a.pdf'', page = None, start_index = Some 0, chunk_id = Some ''a.pdf:0:0''\<rparr>\<rparr>, 1 / 2)]
     = ''near''"
    "sources_of
       [(\<lparr>page_content = ''near'', metadata = \<lparr>source = Some ''a.pdf'', page = None, start_index = Some 0, chunk_id = Some ''a.pdf:0:0''\<rparr>\<rparr>, 1 / 2)]
     = [Some ''a.pdf:0:0'']"
    by (simp_all add: docs_text_of_def sources_of_def)
  from relevance_threshold_filter [OF h,
      of "[(\<lparr>page_content = ''near'', metadata = \<lparr>source = Some ''a.pdf'', page = None, start_index = Some 0, chunk_id = Some ''a.pdf:0:0''\<rparr>\<rparr>, 1 / 2)]"
         "\<lparr>page_content = ''far'', metadata = \<lparr>source = Some ''b.pdf'', page = None, start_index = Some 0, chunk_id = Some ''b.pdf:0:0''\<rparr>\<rparr>"
         "[]"]
    h base
  show ?thesis by simp
qed

text \<open>
  Claim C6 (source attribution), evaluated on two retrieved chunks of two different files,
  \<open>xreport.pdf:0:0\<close> and \<open>report.pdf:0:0\<close>, both below the threshold: the second label is
  looked up as a substring of the list rendered so far, is found inside the first label, and
  is left out, so the sources list has the single entry \<open>xreport.pdf\<close>. (The claim's own
  example, \<open>report.pdf:3:0\<close> and \<open>report.pdf:3:1\<close>, gives the single entry \<open>report.pdf\<close>.)
\<close>

theorem format_sources_drops_distinct_label:
  "format_sources [] [Some ''report.pdf:3:0'', Some ''report.pdf:3:1'']
     = Inr ''<li>report.pdf</li>\<newline>''
   \<and> format_sources [] [Some ''xreport.pdf:0:0'', Some ''report.pdf:0:0'']
     = Inr ''<li>xreport.pdf</li>\<newline>''"
  by (simp add: third_from_end_def)

text \<open>
  Claim C9 (no label, silently, for a malformed identifier), evaluated on the identifier
  \<open>report.pdf:0\<close>, which splits into two segments: the guard lets it through and the index
  \<open>[-3]\<close> raises.
\<close>

theorem format_sources_two_segments_raises:
  "re_split ''report.pdf:0'' = [''report.pdf'', ''0'']
   \<and> format_sources [] [Some ''report.pdf:0''] = Inl IndexError"
  by (simp add: third_from_end_def)

section \<open>Streaming and the conversation history\<close>

lemma handle_submit_query_unfold:
  "handle_submit_query lm markdown results t_user t_assistant query cid st =
     (let mid = Suc (next_id (messages st));
          ms2 = messages st @
            [\<lparr>msg_id = next_id (messages st), chat_id = cid, role = ''user'',
               content = query, timestamp = t_user\<rparr>,
             \<lparr>msg_id = mid, chat_id = cid, role = ''assistant'',
               content = ''Generating...'', timestamp = t_assistant\<rparr>];
          tokens = fst (lm (build_prompt ms2 cid query results));
          out2 = emitted st @ [(cid, start_stream mid)] @ map (\<lambda>t. (cid, stream_token t mid)) tokens
      in case snd (lm (build_prompt ms2 cid query results)) of
           failed \<Rightarrow> (Inl ModelUnavailable, \<lparr>messages = ms2, emitted = out2\<rparr>)
         | completed \<Rightarrow>
             (case format_sources [] (sources_of results) of
                Inl e \<Rightarrow> (Inl e, \<lparr>messages = ms2, emitted = out2\<rparr>)
              | Inr formatted_sources \<Rightarrow>
                  (Inr (),
                   \<lparr>messages =
                      update_content mid
                        (markdown (format_response (concat tokens) formatted_sources)) ms2,
                    emitted = out2 @
                      [(cid, final_response
                          (markdown (format_response (concat tokens) formatted_sources)) mid)]\<rparr>)))"
proof -
  let ?u = "\<lparr>msg_id = next_id (messages st), chat_id = cid, role = ''user'',
               content = query, timestamp = t_user\<rparr>"
  let ?a = "\<lparr>msg_id = Suc (next_id (messages st)), chat_id = cid, role = ''assistant'',
               content = ''Generating...'', timestamp = t_assistant\<rparr>"
  let ?p = "build_prompt (messages st @ [?u, ?a]) cid query results"
  have m: "next_id (messages st @ [?u]) = Suc (next_id (messages st))"
    by (simp add: next_id_def)
  obtain tokens ending where lm: "lm ?p = (tokens, ending)"
    by (cases "lm ?p")
  show ?thesis
  proof (cases ending)
    case failed
    with lm m show ?thesis
      unfolding handle_submit_query_def add_commit_def
      by (simp add: Let_def stream_tokens_eq)
  next
    case completed
    note c = this
    show ?thesis
    proof (cases "format_sources [] (sources_of results)")
      case (Inl e)
      with lm m c show ?thesis
        unfolding handle_submit_query_def add_commit_def
        by (simp add: Let_def stream_tokens_eq)
    next
      case (Inr formatted_sources)
      with lm m c show ?thesis
        unfolding handle_submit_query_def add_commit_def
        by (simp add: Let_def stream_tokens_eq)
    qed
  qed
qed

text \<open>
  Claim C7 (streaming order). When the model's stream completes, the events sent to the
  conversation's room by the handler are, in this order: the start event, one token event per
  token in emission order, each carrying the id of the placeholder assistant message, and then
  the final response once, when the citation step returns (nothing when it raises). For the
  tokens \<open>The\<close>, two spaces, \<open>answer\<close> and no retrieved result these are the three token events
  followed by the final response.
\<close>

theorem streaming_order:
  "(let mid = Suc (next_id (messages st));
        ms2 = messages st @
          [\<lparr>msg_id = next_id (messages st), chat_id = cid, role = ''user'',
             content = query, timestamp = t_user\<rparr>,
           \<lparr>msg_id = mid, chat_id = cid, role = ''assistant'',
             content = ''Generating...'', timestamp = t_assistant\<rparr>];
        tokens = model (build_prompt ms2 cid query results)
    in emitted (snd (handle_submit_query (\<lambda>prompt. (model prompt, completed)) markdown results
                       t_user t_assistant query cid st)) =
         emitted st @ [(cid, start_stream mid)] @
         map (\<lambda>t. (cid, stream_token t mid)) tokens @
         (case format_sources [] (sources_of results) of
            Inl e \<Rightarrow> []
          | Inr formatted_sources \<Rightarrow>
              [(cid, final_response
                  (markdown (format_response (concat tokens) formatted_sources)) mid)]))
   \<and> emitted (snd (handle_submit_query (\<lambda>prompt. ([''The'', ''  '', ''answer''], completed))
                     markdown [] t_user t_assistant query cid st)) =
       emitted st @
       [(cid, start_stream (Suc (next_id (messages st)))),
        (cid, stream_token ''The'' (Suc (next_id (messages st)))),
        (cid, stream_token ''  '' (Suc (next_id (messages st)))),
        (cid, stream_token ''answer'' (Suc (next_id (messages st)))),
        (cid, final_response (markdown ''The  answer'') (Suc (next_id (messages st))))]"
proof (rule conjI)
  show "(let mid = Suc (next_id (messages st));
        ms2 = messages st @
          [\<lparr>msg_id = next_id (messages st), chat_id = cid, role = ''user'',
             content = query, timestamp = t_user\<rparr>,
           \<lparr>msg_id = mid, chat_id = cid, role = ''assistant'',
             content = ''Generating...'', timestamp = t_assistant\<rparr>];
        tokens = model (build_prompt ms2 cid query results)
    in emitted (snd (handle_submit_query (\<lambda>prompt. (model prompt, completed)) markdown results
                       t_user t_assistant query cid st)) =
         emitted st @ [(cid, start_stream mid)] @
         map (\<lambda>t. (cid, stream_token t mid)) tokens @
         (case format_sources [] (sources_of results) of
            Inl e \<Rightarrow> []
          | Inr formatted_sources \<Rightarrow>
              [(cid, final_response
                  (markdown (format_response (concat tokens) formatted_sources)) mid)]))"
    by (simp add: handle_submit_query_unfold Let_def split: sum.splits)
  show "emitted (snd (handle_submit_query (\<lambda>prompt. ([''The'', ''  '', ''answer''], completed))
                     markdown [] t_user t_assistant query cid st)) =
       emitted st @
       [(cid, start_stream (Suc (next_id (messages st)))),
        (cid, stream_token ''The'' (Suc (next_id (messages st)))),
        (cid, stream_token ''  '' (Suc (next_id (messages st)))),
        (cid, stream_token ''answer'' (Suc (next_id (messages st)))),
        (cid, final_response (markdown ''The  answer'') (Suc (next_id (messages st))))]"
    by (simp add: handle_submit_query_unfold Let_def sources_of_def format_response_def)
qed

text \<open>
  Claim C8 (mid-stream model failure). When the model's stream fails after some tokens (none,
  possibly), the handler ends with \<open>ModelUnavailable\<close>. The message table then holds the rows it
  had, the user message and the assistant message with the content \<open>Generating...\<close>; the events
  sent are the start event and the tokens emitted before the failure, and no final response.
\<close>

theorem model_failure_keeps_placeholder:
  "(let mid = Suc (next_id (messages st));
        ms2 = messages st @
          [\<lparr>msg_id = next_id (messages st), chat_id = cid, role = ''user'',
             content = query, timestamp = t_user\<rparr>,
           \<lparr>msg_id = mid, chat_id = cid, role = ''assistant'',
             content = ''Generating...'', timestamp = t_assistant\<rparr>];
        tokens = model (build_prompt ms2 cid query results)
    in handle_submit_query (\<lambda>prompt. (model prompt, failed)) markdown results
         t_user t_assistant query cid st =
       (Inl ModelUnavailable,
        \<lparr>messages = ms2,
         emitted = emitted st @ [(cid, start_stream mid)] @
                   map (\<lambda>t. (cid, stream_token t mid)) tokens\<rparr>))"
  by (simp add: handle_submit_query_unfold Let_def)

section \<open>The history block of the prompt\<close>













end
